theory Spec2Isabelle
  imports Complex_Main
begin

section \<open>Python values used by the teleop handlers\<close>

subsection \<open>Strings\<close>

text \<open>
  Python strings are modelled as \<open>string\<close>, one \<open>char\<close> per code point, for the code
  points 0 to 255. On that range \<open>str.isspace\<close> holds of the twelve code points below, and
  \<open>str.lower\<close> moves the letters \<open>A\<close> to \<open>Z\<close> and the Latin-1 capitals (192 to 222
  without the multiplication sign 215) up by 32 and leaves every other character alone.
\<close>

definition isspace :: "char \<Rightarrow> bool" where
  "isspace c = (of_char c \<in> {9, 10, 11, 12, 13, 28, 29, 30, 31, 32, 133, 160 :: nat})"

definition lower_char :: "char \<Rightarrow> char" where
  "lower_char c =
     (let n = (of_char c :: nat)
      in if (65 \<le> n \<and> n \<le> 90) \<or> (192 \<le> n \<and> n \<le> 222 \<and> n \<noteq> 215)
         then char_of (n + 32) else c)"

definition lower :: "string \<Rightarrow> string" where
  "lower s = map lower_char s"

definition strip :: "string \<Rightarrow> string" where
  "strip s = rev (dropWhile isspace (rev (dropWhile isspace s)))"


subsection \<open>Decoded JSON\<close>

text \<open>
  What \<open>json.loads\<close> returns: \<open>None\<close>, a bool, an int, a float, a str, a list or a dict.
  A dict is an association list read with \<open>map_of\<close>. Floats are modelled as reals (the
  values NaN and Infinity, which behave here like any other non-zero float, are left out).
\<close>

datatype json =
    JNull
  | JBool bool
  | JInt int
  | JFloat real
  | JStr string
  | JArr "json list"
  | JObj "(string \<times> json) list"

text \<open>\<open>d.get(k)\<close>: the value stored under \<open>k\<close>, or \<open>None\<close>.\<close>

definition dict_get :: "(string \<times> json) list \<Rightarrow> string \<Rightarrow> json" where
  "dict_get d k = (case map_of d k of None \<Rightarrow> JNull | Some v \<Rightarrow> v)"

text \<open>Python truthiness, as tested by \<open>if not key\<close>.\<close>

fun truthy :: "json \<Rightarrow> bool" where
  "truthy JNull = False"
| "truthy (JBool b) = b"
| "truthy (JInt i) = (i \<noteq> 0)"
| "truthy (JFloat r) = (r \<noteq> 0)"
| "truthy (JStr s) = (s \<noteq> [])"
| "truthy (JArr xs) = (xs \<noteq> [])"
| "truthy (JObj d) = (d \<noteq> [])"

subsection \<open>The PubSub message\<close>

text \<open>
  The callback argument: \<open>pubsub_message.get("message")\<close> and
  \<open>pubsub_message.get("senderId")\<close>, each a string or \<open>None\<close>.
\<close>

record pubsub_message =
  message :: "string option"
  senderId :: "string option"

subsection \<open>Exceptions and effects\<close>

datatype exn = JSONDecodeError | AttributeError | IndexError

text \<open>A call either returns or raises; both leave a state behind.\<close>

datatype 's result = Returned 's | Raised exn 's

fun state_of :: "'s result \<Rightarrow> 's" where
  "state_of (Returned s) = s"
| "state_of (Raised e s) = s"

text \<open>
  The lines the programs print, without their timestamps. Each constructor is one
  \<open>print\<close> call of the source and carries the values that call formats; the lines
  that both modules print (no message field, message received, handler error) share a
  constructor.
\<close>

datatype log =
    Scanning "string list"
  | Probing string
  | LooksValid string
  | ProbeFailed string
  | NoValidPort
  | NoPortFound
  | Connecting string
  | Connected
  | ConnectFailed string
  | NotConnected string
  | Sent string
  | Reply string
  | SendError string
  | NoMessageField
  | Received json json "string option"
  | IgnoringUnknown json json
  | NodeNotReady json
  | StopHold string
  | JogKey string nat real
  | HandlerError exn

text \<open>
  The calls a program makes to the outside, in order: a printed line, a call on the
  serial library for a port (open, write of some data, read, close), and a trajectory
  message handed to the ROS publisher (joint names and the positions of its one point;
  the point's time from start is the constant \<open>TFS\<close> and is left out). A serial event
  records that the call was made; whether it raised is the environment's answer.
\<close>

datatype event =
    Print log
  | SerialOpen string
  | SerialWrite string string
  | SerialRead string
  | SerialClose string
  | Publish "string list" "real list"

record world =
  out :: "event list"

definition emit :: "event list \<Rightarrow> 'a world_scheme \<Rightarrow> 'a world_scheme" where
  "emit es st = st\<lparr>out := out st @ es\<rparr>"

text \<open>The write calls made on the serial link: port and data.\<close>

fun serial_writes :: "event list \<Rightarrow> (string \<times> string) list" where
  "serial_writes [] = []"
| "serial_writes (SerialWrite p d # es) = (p, d) # serial_writes es"
| "serial_writes (e # es) = serial_writes es"

text \<open>The position vectors published.\<close>

fun published :: "event list \<Rightarrow> real list list" where
  "published [] = []"
| "published (Publish names ps # es) = ps # published es"
| "published (e # es) = published es"

text \<open>The events that are not printed lines: everything that reaches the hardware.\<close>

fun is_print :: "event \<Rightarrow> bool" where
  "is_print (Print l) = True"
| "is_print e = False"

definition hardware :: "event list \<Rightarrow> event list" where
  "hardware es = filter (\<lambda>e. \<not> is_print e) es"

text \<open>The events a call added to the trace of the state it started from.\<close>

definition emitted :: "'a world_scheme \<Rightarrow> 'b world_scheme \<Rightarrow> event list" where
  "emitted st st' = drop (length (out st)) (out st')"

section \<open>teleop\_bak.py: discrete commands over the serial link\<close>

text \<open>
  The module's global \<open>arduino_ser\<close>: \<open>None\<close>, or the serial object, named by the port
  it was opened on.
\<close>

record bak = world +
  arduino_ser :: "string option"

text \<open>
  How one probe of a port goes: at which call, if any, the serial library raises.
\<close>

datatype probe_io = OpenRaises | WriteRaises | ReadRaises | CloseRaises | ProbeOk

fun probe_calls :: "string \<Rightarrow> probe_io \<Rightarrow> event list" where
  "probe_calls port OpenRaises = [SerialOpen port]"
| "probe_calls port WriteRaises = [SerialOpen port, SerialWrite port ''ping\<newline>'']"
| "probe_calls port ReadRaises =
     [SerialOpen port, SerialWrite port ''ping\<newline>'', SerialRead port]"
| "probe_calls port CloseRaises =
     [SerialOpen port, SerialWrite port ''ping\<newline>'', SerialRead port, SerialClose port]"
| "probe_calls port ProbeOk =
     [SerialOpen port, SerialWrite port ''ping\<newline>'', SerialRead port, SerialClose port]"

text \<open>The \<open>for port in candidates\<close> loop of \<open>find_arduino_port\<close>.\<close>

fun scan_ports :: "(string \<Rightarrow> probe_io) \<Rightarrow> string list \<Rightarrow> string option \<times> event list" where
  "scan_ports probe [] = (None, [Print NoValidPort])"
| "scan_ports probe (port # rest) =
     (if probe port = ProbeOk
      then (Some port, Print (Probing port) # probe_calls port ProbeOk @ [Print (LooksValid port)])
      else (let (found, es) = scan_ports probe rest
            in (found, Print (Probing port) # probe_calls port (probe port)
                       @ Print (ProbeFailed port) # es)))"

text \<open>
  \<open>candidates\<close> is what the two \<open>glob.glob\<close> calls list; \<open>probe\<close> is how the host
  answers the probe of each port.
\<close>

definition find_arduino_port ::
  "string list \<Rightarrow> (string \<Rightarrow> probe_io) \<Rightarrow> string option \<times> event list" where
  "find_arduino_port candidates probe =
     (let (found, es) = scan_ports probe candidates
      in (found, Print (Scanning candidates) # es))"

text \<open>\<open>open_ok port\<close>: whether the second \<open>serial.Serial(port, ...)\<close> returns.\<close>

definition init_arduino ::
  "string list \<Rightarrow> (string \<Rightarrow> probe_io) \<Rightarrow> (string \<Rightarrow> bool) \<Rightarrow> bak \<Rightarrow> bak" where
  "init_arduino candidates probe open_ok st =
     (case find_arduino_port candidates probe of
        (None, es) \<Rightarrow> emit (es @ [Print NoPortFound]) (st\<lparr>arduino_ser := None\<rparr>)
      | (Some port, es) \<Rightarrow>
          if open_ok port
          then emit (es @ [Print (Connecting port), SerialOpen port, Print Connected])
                 (st\<lparr>arduino_ser := Some port\<rparr>)
          else emit (es @ [Print (Connecting port), SerialOpen port, Print (ConnectFailed port)])
                 (st\<lparr>arduino_ser := None\<rparr>))"

text \<open>
  How the serial object answers one \<open>send_cmd_to_arduino\<close>: \<open>write\<close> raises; or it
  returns and \<open>in_waiting\<close> raises, is zero, or is non-zero and \<open>readline\<close> raises or
  returns a line (already decoded).
\<close>

datatype serial_io =
    WriteFails
  | InWaitingFails
  | NothingWaiting
  | ReadlineFails
  | Line string

definition send_cmd_to_arduino :: "string \<Rightarrow> serial_io \<Rightarrow> bak \<Rightarrow> bak" where
  "send_cmd_to_arduino cmd io st =
     (case arduino_ser st of
        None \<Rightarrow> emit [Print (NotConnected cmd)] st
      | Some port \<Rightarrow>
          (case io of
             WriteFails \<Rightarrow>
               emit [SerialWrite port (cmd @ ''\<newline>''), Print (SendError cmd)] st
           | InWaitingFails \<Rightarrow>
               emit [SerialWrite port (cmd @ ''\<newline>''), Print (Sent cmd),
                     Print (SendError cmd)] st
           | NothingWaiting \<Rightarrow>
               emit [SerialWrite port (cmd @ ''\<newline>''), Print (Sent cmd)] st
           | ReadlineFails \<Rightarrow>
               emit [SerialWrite port (cmd @ ''\<newline>''), Print (Sent cmd),
                     SerialRead port, Print (SendError cmd)] st
           | Line l \<Rightarrow>
               (let resp = strip l
                in if resp \<noteq> []
                   then emit [SerialWrite port (cmd @ ''\<newline>''), Print (Sent cmd),
                              SerialRead port, Print (Reply resp)] st
                   else emit [SerialWrite port (cmd @ ''\<newline>''), Print (Sent cmd),
                              SerialRead port] st)))"

text \<open>The tuple of known commands in \<open>handle_teleop_message\<close>.\<close>

definition known_cmds :: "string list" where
  "known_cmds = [''forward'', ''backward'', ''left'', ''right'']"

text \<open>
  The \<open>try\<close> block of \<open>handle_teleop_message\<close>. \<open>loads\<close> is \<open>json.loads\<close>, with
  \<open>None\<close> where it raises. \<open>data.get\<close> raises AttributeError unless \<open>data\<close> is a dict.
  Only a str can be equal to a member of the tuple.
\<close>

definition handle_teleop_message_try ::
  "(string \<Rightarrow> json option) \<Rightarrow> serial_io \<Rightarrow> pubsub_message \<Rightarrow> bak \<Rightarrow> bak result" where
  "handle_teleop_message_try loads io m st =
     (case message m of
        None \<Rightarrow> Returned (emit [Print NoMessageField] st)
      | Some payload_str \<Rightarrow>
          if payload_str = [] then Returned (emit [Print NoMessageField] st)
          else (case loads payload_str of
                  None \<Rightarrow> Raised JSONDecodeError st
                | Some (JObj data) \<Rightarrow>
                    (let cmd = dict_get data ''cmd'';
                         ts = dict_get data ''ts'';
                         st1 = emit [Print (Received cmd ts (senderId m))] st
                     in case cmd of
                          JStr c \<Rightarrow>
                            if c \<in> set known_cmds
                            then Returned (send_cmd_to_arduino c io st1)
                            else Returned (emit [Print (IgnoringUnknown cmd (JObj data))] st1)
                        | _ \<Rightarrow> Returned (emit [Print (IgnoringUnknown cmd (JObj data))] st1))
                | Some _ \<Rightarrow> Raised AttributeError st))"

text \<open>The whole handler: \<open>except Exception\<close> prints the error and returns.\<close>

definition handle_teleop_message ::
  "(string \<Rightarrow> json option) \<Rightarrow> serial_io \<Rightarrow> pubsub_message \<Rightarrow> bak \<Rightarrow> bak result" where
  "handle_teleop_message loads io m st =
     (case handle_teleop_message_try loads io m st of
        Raised e st' \<Rightarrow> Returned (emit [Print (HandlerError e)] st')
      | Returned st' \<Rightarrow> Returned st')"

section \<open>teleop\_gzb.py: joint jog\<close>

definition JOINT_NAMES :: "string list" where
  "JOINT_NAMES = [''joint1'', ''joint2'', ''joint3'', ''joint4'', ''joint5'', ''joint6'', ''joint7'']"

text \<open>
  \<open>math.radians(3.0)\<close>. Joint positions are Python floats; they are modelled as reals,
  so rounding is not part of the model.
\<close>

definition STEP_RAD :: real where
  "STEP_RAD = 3 * (pi / 180)"

definition KEYMAP :: "(string \<times> nat \<times> int) list" where
  "KEYMAP =
     [(''q'', 0, 1), (''a'', 0, -1),
      (''w'', 1, 1), (''s'', 1, -1),
      (''e'', 2, 1), (''d'', 2, -1),
      (''r'', 3, 1), (''f'', 3, -1),
      (''t'', 4, 1), (''g'', 4, -1),
      (''y'', 5, 1), (''h'', 5, -1),
      (''u'', 6, 1), (''j'', 6, -1)]"

definition STOP_KEYS :: "string set" where
  "STOP_KEYS = {'' '', ''x''}"

record JointJogNode =
  q :: "real list"

text \<open>\<open>JointJogNode.__init__\<close>: \<open>self.q = [0.0] * len(JOINT_NAMES)\<close>.\<close>

definition JointJogNode_init :: JointJogNode where
  "JointJogNode_init = \<lparr>q = replicate (length JOINT_NAMES) 0\<rparr>"

text \<open>The module's global \<open>ros_node\<close>: \<open>None\<close> until \<open>__main__\<close> has built the node.\<close>

record gzb = world +
  ros_node :: "JointJogNode option"

definition publish_target :: "JointJogNode \<Rightarrow> gzb \<Rightarrow> gzb" where
  "publish_target self st = emit [Publish JOINT_NAMES (q self)] st"

text \<open>
  \<open>ros_node.handle_key(key)\<close>. \<open>self\<close> is the global node; a call on \<open>None\<close>, and
  \<open>key.lower()\<close> on anything but a str, raise AttributeError. An index outside
  \<open>self.q\<close> raises IndexError.
\<close>

definition handle_key :: "json \<Rightarrow> gzb \<Rightarrow> gzb result" where
  "handle_key key st =
     (case ros_node st of
        None \<Rightarrow> Raised AttributeError st
      | Some self \<Rightarrow>
          if \<not> truthy key then Returned st
          else (case key of
                  JStr s \<Rightarrow>
                    (let k = strip (lower s)
                     in if k \<in> STOP_KEYS
                        then Returned (publish_target self (emit [Print (StopHold k)] st))
                        else (case map_of KEYMAP k of
                                None \<Rightarrow> Returned st
                              | Some (idx, sign) \<Rightarrow>
                                  if idx < length (q self)
                                  then (let self' = self\<lparr>q := (q self)
                                              [idx := q self ! idx + real_of_int sign * STEP_RAD]\<rparr>
                                        in Returned
                                             (publish_target self'
                                               (emit [Print (JogKey k idx (q self' ! idx))]
                                                 (st\<lparr>ros_node := Some self'\<rparr>))))
                                  else Raised IndexError st))
                | _ \<Rightarrow> Raised AttributeError st))"

text \<open>Successive calls \<open>ros_node.handle_key(k)\<close>; an exception ends the run.\<close>

fun handle_keys :: "json list \<Rightarrow> gzb \<Rightarrow> gzb result" where
  "handle_keys [] st = Returned st"
| "handle_keys (k # ks) st =
     (case handle_key k st of
        Returned st' \<Rightarrow> handle_keys ks st'
      | Raised e st' \<Rightarrow> Raised e st')"

text \<open>The \<open>try\<close> block of the jog module's \<open>handle_teleop_message\<close>.\<close>

definition handle_teleop_message_gzb_try ::
  "(string \<Rightarrow> json option) \<Rightarrow> pubsub_message \<Rightarrow> gzb \<Rightarrow> gzb result" where
  "handle_teleop_message_gzb_try loads m st =
     (case message m of
        None \<Rightarrow> Returned (emit [Print NoMessageField] st)
      | Some payload_str \<Rightarrow>
          if payload_str = [] then Returned (emit [Print NoMessageField] st)
          else (case loads payload_str of
                  None \<Rightarrow> Raised JSONDecodeError st
                | Some (JObj data) \<Rightarrow>
                    (let key = dict_get data ''key'';
                         ts = dict_get data ''ts'';
                         st1 = emit [Print (Received key ts (senderId m))] st
                     in if ros_node st1 = None
                        then Returned (emit [Print (NodeNotReady key)] st1)
                        else handle_key key st1)
                | Some _ \<Rightarrow> Raised AttributeError st))"

definition handle_teleop_message_gzb ::
  "(string \<Rightarrow> json option) \<Rightarrow> pubsub_message \<Rightarrow> gzb \<Rightarrow> gzb result" where
  "handle_teleop_message_gzb loads m st =
     (case handle_teleop_message_gzb_try loads m st of
        Raised e st' \<Rightarrow> Returned (emit [Print (HandlerError e)] st')
      | Returned st' \<Rightarrow> Returned st')"

text \<open>
  A lower-case ASCII letter whose one-character string is not a stop key: the shape of
  every key of \<open>KEYMAP\<close>.
\<close>

definition jog_letter :: "char \<Rightarrow> bool" where
  "jog_letter c = (97 \<le> (of_char c :: nat) \<and> (of_char c :: nat) \<le> 122 \<and> [c] \<notin> STOP_KEYS)"

section \<open>Notions used to state the properties\<close>

text \<open>
  What a handler decodes from a message: defined when the message field is a non-empty
  string that \<open>json.loads\<close> accepts.
\<close>

definition payload :: "(string \<Rightarrow> json option) \<Rightarrow> pubsub_message \<Rightarrow> json option" where
  "payload loads m =
     (case message m of None \<Rightarrow> None | Some p \<Rightarrow> if p = [] then None else loads p)"

text \<open>
  The value \<open>data.get(k)\<close> that a handler reads, defined when the payload decodes to
  a dict.
\<close>

definition field :: "(string \<Rightarrow> json option) \<Rightarrow> pubsub_message \<Rightarrow> string \<Rightarrow> json option" where
  "field loads m k = (case payload loads m of Some (JObj d) \<Rightarrow> Some (dict_get d k) | _ \<Rightarrow> None)"

text \<open>
  How often a trace shows a connect: each call of \<open>init_arduino\<close> calls
  \<open>find_arduino_port\<close>, whose first act is to print the candidates.
\<close>

fun connect_attempts :: "event list \<Rightarrow> nat" where
  "connect_attempts [] = 0"
| "connect_attempts (Print (Scanning cs) # es) = Suc (connect_attempts es)"
| "connect_attempts (e # es) = connect_attempts es"

text \<open>Successive calls of \<open>send_cmd_to_arduino\<close>, each with the serial object's answer.\<close>

fun send_cmds :: "(string \<times> serial_io) list \<Rightarrow> bak \<Rightarrow> bak" where
  "send_cmds [] st = st"
| "send_cmds ((cmd, io) # rest) st = send_cmds rest (send_cmd_to_arduino cmd io st)"

section \<open>Example inputs\<close>

text \<open>The jog module once \<open>__main__\<close> has built the node, with nothing printed yet.\<close>

definition gzb_start :: gzb where
  "gzb_start = \<lparr>out = [], ros_node = Some JointJogNode_init\<rparr>"

text \<open>
  \<open>json.loads\<close> is a parameter of the handlers. For the examples it is instantiated
  by the decoded values of the JSON payloads they use; the one other string they feed
  it is not JSON.
\<close>

definition loads_table :: "string \<Rightarrow> json option" where
  \<open>loads_table = map_of
     [(''{"cmd":"forward","ts":1}'', JObj [(''cmd'', JStr ''forward''), (''ts'', JInt 1)]),
      (''{"cmd":"jump","ts":2}'', JObj [(''cmd'', JStr ''jump''), (''ts'', JInt 2)]),
      (''{"key":" ","ts":3}'', JObj [(''key'', JStr '' ''), (''ts'', JInt 3)])]\<close>

text \<open>The serial module before any connect, and connected on a port.\<close>

definition bak_unconnected :: bak where
  "bak_unconnected = \<lparr>out = [], arduino_ser = None\<rparr>"

definition bak_connected :: bak where
  "bak_connected = \<lparr>out = [], arduino_ser = Some ''/dev/ttyUSB0''\<rparr>"

text \<open>
  A discrete-motion envelope, an envelope with a command outside the known four, a
  message that is not JSON, and a jog envelope carrying the space key.
\<close>

definition forward_msg :: pubsub_message where
  \<open>forward_msg = \<lparr>message = Some ''{"cmd":"forward","ts":1}'', senderId = Some ''operator''\<rparr>\<close>

definition jump_msg :: pubsub_message where
  \<open>jump_msg = \<lparr>message = Some ''{"cmd":"jump","ts":2}'', senderId = Some ''operator''\<rparr>\<close>

definition garbled_msg :: pubsub_message where
  "garbled_msg = \<lparr>message = Some ''{cmd: forward'', senderId = Some ''operator''\<rparr>"

definition space_msg :: pubsub_message where
  \<open>space_msg = \<lparr>message = Some ''{"key":" ","ts":3}'', senderId = Some ''operator''\<rparr>\<close>

section \<open>Basic facts\<close>

subsection \<open>The trace\<close>

lemma out_emit [simp]: "out (emit es st) = out st @ es"
  by (simp add: emit_def)

lemma arduino_ser_emit [simp]: "arduino_ser (emit es st) = arduino_ser st"
  by (simp add: emit_def)

lemma ros_node_emit [simp]: "ros_node (emit es st) = ros_node st"
  by (simp add: emit_def)

lemma emitted_emit [simp]: "emitted st (emit es st) = es"
  by (simp add: emitted_def)

lemma emitted_self [simp]: "emitted st st = []"
  by (simp add: emitted_def)

lemma emit_emit: "emit es (emit ds st) = emit (ds @ es) st"
  by (simp add: emit_def)

lemma emit_eq_iff [simp]: "emit es st = emit ds st \<longleftrightarrow> es = ds"
proof
  assume "emit es st = emit ds st"
  then have "out (emit es st) = out (emit ds st)"
    by simp
  then show "es = ds"
    by simp
qed simp

lemma list_all_is_print_hardware: "list_all is_print es \<Longrightarrow> hardware es = []"
  by (simp add: hardware_def list_all_iff)

lemma emit_Nil [simp]: "emit [] st = st"
  by (simp add: emit_def)

lemma published_append [simp]: "published (es @ ds) = published es @ published ds"
  by (induction es rule: published.induct) simp_all

lemma serial_writes_append [simp]: "serial_writes (es @ ds) = serial_writes es @ serial_writes ds"
  by (induction es rule: serial_writes.induct) simp_all

lemma hardware_append [simp]: "hardware (es @ ds) = hardware es @ hardware ds"
  by (simp add: hardware_def)

lemma emitted_ros_node_update [simp]:
  "emitted st (emit es (st\<lparr>ros_node := n\<rparr>)) = es"
  by (simp add: emitted_def)

subsection \<open>Lower-casing and stripping\<close>



lemma lower_char_small:
  assumes "97 \<le> (of_char c :: nat)" "(of_char c :: nat) \<le> 122"
  shows "lower_char c = c"
  using assms by (simp add: lower_char_def)


lemma dropWhile_all: "list_all P xs \<Longrightarrow> dropWhile P (xs @ ys) = dropWhile P ys"
  by (induction xs) auto

lemma strip_padded:
  assumes "list_all isspace pre" "list_all isspace post" "\<not> isspace c"
  shows "strip (pre @ [c] @ post) = [c]"
proof -
  have "dropWhile isspace (pre @ [c] @ post) = c # post"
    using assms by (simp add: dropWhile_all)
  moreover have "dropWhile isspace (rev post @ [c]) = [c]"
    using assms by (simp add: dropWhile_all list_all_iff)
  ultimately show ?thesis by (simp add: strip_def)
qed


subsection \<open>The jog table\<close>

lemma KEYMAP_all:
  "list_all (\<lambda>(k, idx, sign). (case k of [c] \<Rightarrow> jog_letter c | _ \<Rightarrow> False)
       \<and> idx < length JOINT_NAMES \<and> (sign = 1 \<or> sign = -1)) KEYMAP"
  by (simp add: KEYMAP_def JOINT_NAMES_def jog_letter_def STOP_KEYS_def)

lemma KEYMAP_keys:
  assumes "(k, idx, sign) \<in> set KEYMAP"
  shows "\<exists>c. k = [c] \<and> jog_letter c" and "idx < length JOINT_NAMES" and "sign = 1 \<or> sign = -1"
  using assms KEYMAP_all by (auto simp: list_all_iff split: list.splits)

lemma KEYMAP_map_of:
  assumes "(k, v) \<in> set KEYMAP"
  shows "map_of KEYMAP k = Some v"
proof -
  have "distinct (map fst KEYMAP)" by (simp add: KEYMAP_def)
  then show ?thesis using assms by simp
qed

lemma strip_lower_key:
  assumes "(k, v) \<in> set KEYMAP"
  shows "strip (lower k) = k"
proof -
  obtain idx sign where "v = (idx, sign)" by (cases v)
  with assms KEYMAP_keys(1) obtain c where c: "k = [c]" "jog_letter c"
    by blast
  then have "lower_char c = c"
    by (simp add: jog_letter_def lower_char_small)
  moreover have "\<not> isspace c"
    using c by (simp add: jog_letter_def isspace_def)
  ultimately show ?thesis
    using strip_padded [of "[]" "[]" c] by (simp add: c lower_def)
qed


section \<open>The message handlers\<close>

subsection \<open>Serial module\<close>


lemma handle_teleop_message_known:
  assumes "field loads m ''cmd'' = Some (JStr c)" and "c \<in> set known_cmds"
  shows "\<exists>ts. handle_teleop_message loads io m st =
           Returned (send_cmd_to_arduino c io (emit [Print (Received (JStr c) ts (senderId m))] st))"
  using assms
  by (auto simp: handle_teleop_message_def handle_teleop_message_try_def field_def payload_def Let_def
      split: option.splits json.splits if_splits)


lemma handle_teleop_message_unknown:
  assumes "\<forall>c. field loads m ''cmd'' = Some (JStr c) \<longrightarrow> c \<notin> set known_cmds"
  shows "\<exists>es. handle_teleop_message loads io m st = Returned (emit es st) \<and> list_all is_print es"
proof (cases "payload loads m")
  case None
  then show ?thesis
    by (auto simp: handle_teleop_message_def handle_teleop_message_try_def payload_def emit_emit
        split: option.splits if_splits)
next
  case (Some data)
  then obtain p where p: "message m = Some p" "p \<noteq> []" "loads p = Some data"
    by (auto simp: payload_def split: option.splits if_splits)
  show ?thesis
  proof (cases data)
    case (JObj d)
    with assms Some have "\<forall>c. dict_get d ''cmd'' = JStr c \<longrightarrow> c \<notin> set known_cmds"
      by (simp add: field_def)
    then show ?thesis
      using p JObj
      by (cases "dict_get d ''cmd''";
          force simp: handle_teleop_message_def handle_teleop_message_try_def Let_def emit_emit)
  qed (use p in \<open>force simp: handle_teleop_message_def handle_teleop_message_try_def emit_emit\<close>)+
qed

lemma handle_teleop_message_returns:
  "\<exists>st'. handle_teleop_message loads io m st = Returned st'"
  by (simp add: handle_teleop_message_def split: result.split)

subsection \<open>Jog module\<close>

lemma handle_teleop_message_gzb_returns:
  "\<exists>st'. handle_teleop_message_gzb loads m st = Returned st'"
  by (simp add: handle_teleop_message_gzb_def split: result.split)

lemma handle_key_unknown:
  assumes "\<forall>s. key = JStr s \<longrightarrow> strip (lower s) \<notin> STOP_KEYS \<and> map_of KEYMAP (strip (lower s)) = None"
  shows "\<exists>e. handle_key key st = Returned st \<or> handle_key key st = Raised e st"
  using assms by (cases key; cases "ros_node st") (simp_all add: handle_key_def)

lemma handle_teleop_message_gzb_unknown:
  assumes "\<forall>s. field loads m ''key'' = Some (JStr s) \<longrightarrow>
             strip (lower s) \<notin> STOP_KEYS \<and> map_of KEYMAP (strip (lower s)) = None"
  shows "\<exists>es. handle_teleop_message_gzb loads m st = Returned (emit es st) \<and> list_all is_print es"
proof (cases "payload loads m")
  case None
  then show ?thesis
    by (auto simp: handle_teleop_message_gzb_def handle_teleop_message_gzb_try_def payload_def emit_emit
        split: option.splits if_splits)
next
  case (Some data)
  then obtain p where p: "message m = Some p" "p \<noteq> []" "loads p = Some data"
    by (auto simp: payload_def split: option.splits if_splits)
  show ?thesis
  proof (cases data)
    case (JObj d)
    let ?st1 = "emit [Print (Received (dict_get d ''key'') (dict_get d ''ts'') (senderId m))] st"
    from assms Some JObj have "\<forall>s. dict_get d ''key'' = JStr s \<longrightarrow>
             strip (lower s) \<notin> STOP_KEYS \<and> map_of KEYMAP (strip (lower s)) = None"
      by (simp add: field_def)
    from handle_key_unknown [OF this, of ?st1] obtain e where
      "handle_key (dict_get d ''key'') ?st1 = Returned ?st1
        \<or> handle_key (dict_get d ''key'') ?st1 = Raised e ?st1"
      by blast
    then show ?thesis
      using p JObj
      by (auto simp: handle_teleop_message_gzb_def handle_teleop_message_gzb_try_def Let_def emit_emit)
  qed (use p in \<open>force simp: handle_teleop_message_gzb_def handle_teleop_message_gzb_try_def emit_emit\<close>)+
qed

lemma field_payload_None: "payload loads m = None \<Longrightarrow> field loads m k = None"
  by (simp add: field_def)

subsection \<open>No handler raises\<close>

text \<open>
  Claim C1. Whatever the message, the decoder's answer, the serial object's answer and
  the state, each module's \<open>handle_teleop_message\<close> returns; it never raises. When
  the payload carries no known command (serial module) or no key of either table (jog
  module), nothing but printed lines is produced and the serial handle or the node is
  as before. A message that is missing, empty or not valid JSON is such a case.
\<close>

theorem handlers_never_raise:
  "(\<exists>st'. handle_teleop_message loads io m st = Returned st')
   \<and> (\<exists>gt'. handle_teleop_message_gzb loads m gt = Returned gt')
   \<and> ((\<forall>c. field loads m ''cmd'' = Some (JStr c) \<longrightarrow> c \<notin> set known_cmds) \<longrightarrow>
        hardware (emitted st (state_of (handle_teleop_message loads io m st))) = []
        \<and> arduino_ser (state_of (handle_teleop_message loads io m st)) = arduino_ser st)
   \<and> ((\<forall>s. field loads m ''key'' = Some (JStr s) \<longrightarrow>
           strip (lower s) \<notin> STOP_KEYS \<and> map_of KEYMAP (strip (lower s)) = None) \<longrightarrow>
        hardware (emitted gt (state_of (handle_teleop_message_gzb loads m gt))) = []
        \<and> ros_node (state_of (handle_teleop_message_gzb loads m gt)) = ros_node gt)
   \<and> (payload loads m = None \<longrightarrow>
        hardware (emitted st (state_of (handle_teleop_message loads io m st))) = []
        \<and> arduino_ser (state_of (handle_teleop_message loads io m st)) = arduino_ser st
        \<and> hardware (emitted gt (state_of (handle_teleop_message_gzb loads m gt))) = []
        \<and> ros_node (state_of (handle_teleop_message_gzb loads m gt)) = ros_node gt)"
proof -
  have bak: "hardware (emitted st (state_of (handle_teleop_message loads io m st))) = []
        \<and> arduino_ser (state_of (handle_teleop_message loads io m st)) = arduino_ser st"
    if "\<forall>c. field loads m ''cmd'' = Some (JStr c) \<longrightarrow> c \<notin> set known_cmds"
    using handle_teleop_message_unknown [OF that, of io st]
    by (auto simp: list_all_is_print_hardware)
  have gzb: "hardware (emitted gt (state_of (handle_teleop_message_gzb loads m gt))) = []
        \<and> ros_node (state_of (handle_teleop_message_gzb loads m gt)) = ros_node gt"
    if "\<forall>s. field loads m ''key'' = Some (JStr s) \<longrightarrow>
           strip (lower s) \<notin> STOP_KEYS \<and> map_of KEYMAP (strip (lower s)) = None"
    using handle_teleop_message_gzb_unknown [OF that, of gt]
    by (auto simp: list_all_is_print_hardware)
  show ?thesis
    using handle_teleop_message_returns [of loads io m st]
      handle_teleop_message_gzb_returns [of loads m gt] bak gzb
    by (simp add: field_payload_None)
qed

theorem handlers_never_raise_witness:
  "payload loads_table garbled_msg = None
   \<and> handle_teleop_message_try loads_table NothingWaiting garbled_msg bak_connected
       = Raised JSONDecodeError bak_connected
   \<and> field loads_table jump_msg ''cmd'' = Some (JStr ''jump'') \<and> ''jump'' \<notin> set known_cmds
   \<and> field loads_table jump_msg ''key'' = Some JNull
   \<and> (\<exists>st'. handle_teleop_message loads_table NothingWaiting garbled_msg bak_connected = Returned st')
   \<and> (\<exists>gt'. handle_teleop_message_gzb loads_table garbled_msg gzb_start = Returned gt')
   \<and> hardware (emitted bak_connected
         (state_of (handle_teleop_message loads_table NothingWaiting garbled_msg bak_connected))) = []
   \<and> arduino_ser (state_of (handle_teleop_message loads_table NothingWaiting garbled_msg bak_connected))
       = arduino_ser bak_connected
   \<and> hardware (emitted gzb_start
         (state_of (handle_teleop_message_gzb loads_table garbled_msg gzb_start))) = []
   \<and> ros_node (state_of (handle_teleop_message_gzb loads_table garbled_msg gzb_start))
       = ros_node gzb_start
   \<and> hardware (emitted bak_connected
         (state_of (handle_teleop_message loads_table NothingWaiting jump_msg bak_connected))) = []
   \<and> arduino_ser (state_of (handle_teleop_message loads_table NothingWaiting jump_msg bak_connected))
       = arduino_ser bak_connected
   \<and> hardware (emitted gzb_start
         (state_of (handle_teleop_message_gzb loads_table jump_msg gzb_start))) = []
   \<and> ros_node (state_of (handle_teleop_message_gzb loads_table jump_msg gzb_start))
       = ros_node gzb_start"
proof -
  have g: "payload loads_table garbled_msg = None"
    by (simp add: payload_def garbled_msg_def loads_table_def)
  have j: "field loads_table jump_msg ''cmd'' = Some (JStr ''jump'')" "''jump'' \<notin> set known_cmds"
    "field loads_table jump_msg ''key'' = Some JNull"
    by (simp_all add: field_def payload_def jump_msg_def loads_table_def dict_get_def known_cmds_def)
  from handlers_never_raise [of loads_table NothingWaiting garbled_msg bak_connected gzb_start] g
  have 1: "(\<exists>st'. handle_teleop_message loads_table NothingWaiting garbled_msg bak_connected = Returned st')"
    "(\<exists>gt'. handle_teleop_message_gzb loads_table garbled_msg gzb_start = Returned gt')"
    "hardware (emitted bak_connected
         (state_of (handle_teleop_message loads_table NothingWaiting garbled_msg bak_connected))) = []"
    "arduino_ser (state_of (handle_teleop_message loads_table NothingWaiting garbled_msg bak_connected))
       = arduino_ser bak_connected"
    "hardware (emitted gzb_start
         (state_of (handle_teleop_message_gzb loads_table garbled_msg gzb_start))) = []"
    "ros_node (state_of (handle_teleop_message_gzb loads_table garbled_msg gzb_start))
       = ros_node gzb_start"
    by blast+
  from handlers_never_raise [of loads_table NothingWaiting jump_msg bak_connected gzb_start] j
  have 2: "hardware (emitted bak_connected
         (state_of (handle_teleop_message loads_table NothingWaiting jump_msg bak_connected))) = []"
    "arduino_ser (state_of (handle_teleop_message loads_table NothingWaiting jump_msg bak_connected))
       = arduino_ser bak_connected"
    "hardware (emitted gzb_start
         (state_of (handle_teleop_message_gzb loads_table jump_msg gzb_start))) = []"
    "ros_node (state_of (handle_teleop_message_gzb loads_table jump_msg gzb_start))
       = ros_node gzb_start"
    by simp_all
  have t: "handle_teleop_message_try loads_table NothingWaiting garbled_msg bak_connected
       = Raised JSONDecodeError bak_connected"
    by (simp add: handle_teleop_message_try_def garbled_msg_def loads_table_def)
  show ?thesis
    using g j 1 2 t by blast
qed

subsection \<open>What reaches the serial link\<close>



section \<open>The serial link\<close>

subsection \<open>No device\<close>

lemma send_cmds_unconnected:
  assumes "arduino_ser st = None"
  shows "send_cmds xs st = emit (map (\<lambda>(cmd, io). Print (NotConnected cmd)) xs) st"
  using assms
proof (induction xs arbitrary: st)
  case Nil
  then show ?case by simp
next
  case (Cons x xs)
  obtain cmd io where x: "x = (cmd, io)" by (cases x)
  have "send_cmd_to_arduino cmd io st = emit [Print (NotConnected cmd)] st"
    using Cons.prems by (simp add: send_cmd_to_arduino_def)
  moreover have "arduino_ser (emit [Print (NotConnected cmd)] st) = None"
    using Cons.prems by simp
  ultimately show ?case
    using Cons.IH [of "emit [Print (NotConnected cmd)] st"] by (simp add: x emit_emit)
qed

lemma hardware_prints: "hardware (map (\<lambda>(cmd, io). Print (NotConnected cmd)) xs) = []"
  by (induction xs) (auto simp: hardware_def)

text \<open>
  Claim C8. With no candidate port, \<open>init_arduino\<close> reports that no port was found
  and leaves \<open>arduino_ser\<close> unset, opening nothing. Every later
  \<open>send_cmd_to_arduino\<close>, whatever the command, returns after printing that the
  link is not connected: no call reaches the serial library and the handle stays unset.
\<close>

theorem no_device_then_not_connected:
  "init_arduino [] probe open_ok st
     = emit [Print (Scanning []), Print NoValidPort, Print NoPortFound] (st\<lparr>arduino_ser := None\<rparr>)
   \<and> arduino_ser (init_arduino [] probe open_ok st) = None
   \<and> hardware (emitted st (init_arduino [] probe open_ok st)) = []
   \<and> send_cmds xs (init_arduino [] probe open_ok st)
       = emit (map (\<lambda>(cmd, io). Print (NotConnected cmd)) xs) (init_arduino [] probe open_ok st)
   \<and> arduino_ser (send_cmds xs (init_arduino [] probe open_ok st)) = None
   \<and> hardware (emitted (init_arduino [] probe open_ok st)
        (send_cmds xs (init_arduino [] probe open_ok st))) = []"
proof -
  have i: "init_arduino [] probe open_ok st
     = emit [Print (Scanning []), Print NoValidPort, Print NoPortFound] (st\<lparr>arduino_ser := None\<rparr>)"
    by (simp add: init_arduino_def find_arduino_port_def)
  then have n: "arduino_ser (init_arduino [] probe open_ok st) = None"
    by simp
  have h: "hardware (emitted st (init_arduino [] probe open_ok st)) = []"
    by (simp add: i emitted_def emit_def hardware_def)
  show ?thesis
    using i n h send_cmds_unconnected [OF n, of xs] by (simp add: hardware_prints)
qed

subsection \<open>No link when a command arrives\<close>

text \<open>
  Claim C2, as stated, fails: with the link unconnected a \<open>forward\<close> message prints
  two lines and nothing else; there is not one connect attempt.
\<close>

theorem no_reconnect_counterexample:
  "emitted bak_unconnected
      (state_of (handle_teleop_message loads_table NothingWaiting forward_msg bak_unconnected))
     = [Print (Received (JStr ''forward'') (JInt 1) (Some ''operator'')),
        Print (NotConnected ''forward'')]
   \<and> connect_attempts (emitted bak_unconnected
        (state_of (handle_teleop_message loads_table NothingWaiting forward_msg bak_unconnected)))
       \<noteq> 1"
  by (simp add: handle_teleop_message_def handle_teleop_message_try_def forward_msg_def
      loads_table_def dict_get_def known_cmds_def send_cmd_to_arduino_def bak_unconnected_def
      emit_def emitted_def)

text \<open>
  Claim C2, amended. When a known command arrives and the link is not connected, the
  handler prints that it cannot send and drops the command: no connect is attempted,
  nothing is sent or retried, nothing is kept for later, and the link stays unconnected.
\<close>

theorem not_connected_drops:
  assumes "field loads m ''cmd'' = Some (JStr c)" and "c \<in> set known_cmds"
    and "arduino_ser st = None"
  shows "(\<exists>ts. handle_teleop_message loads io m st =
            Returned (emit [Print (Received (JStr c) ts (senderId m)), Print (NotConnected c)] st))
    \<and> connect_attempts (emitted st (state_of (handle_teleop_message loads io m st))) = 0
    \<and> hardware (emitted st (state_of (handle_teleop_message loads io m st))) = []
    \<and> arduino_ser (state_of (handle_teleop_message loads io m st)) = None"
proof -
  from handle_teleop_message_known [OF assms(1,2), of io st] obtain ts where
    "handle_teleop_message loads io m st =
       Returned (send_cmd_to_arduino c io (emit [Print (Received (JStr c) ts (senderId m))] st))"
    by blast
  then have r: "handle_teleop_message loads io m st =
       Returned (emit [Print (Received (JStr c) ts (senderId m)), Print (NotConnected c)] st)"
    using assms(3) by (simp add: send_cmd_to_arduino_def emit_emit)
  then show ?thesis
    using assms(3) by (simp add: hardware_def)
qed

theorem not_connected_drops_witness:
  "field loads_table forward_msg ''cmd'' = Some (JStr ''forward'') \<and> ''forward'' \<in> set known_cmds
   \<and> arduino_ser bak_unconnected = None
   \<and> connect_attempts (emitted bak_unconnected
        (state_of (handle_teleop_message loads_table NothingWaiting forward_msg bak_unconnected))) = 0
   \<and> hardware (emitted bak_unconnected
        (state_of (handle_teleop_message loads_table NothingWaiting forward_msg bak_unconnected))) = []
   \<and> arduino_ser (state_of (handle_teleop_message loads_table NothingWaiting forward_msg bak_unconnected))
       = None"
proof -
  have h: "field loads_table forward_msg ''cmd'' = Some (JStr ''forward'')"
    "''forward'' \<in> set known_cmds" "arduino_ser bak_unconnected = None"
    by (simp_all add: bak_unconnected_def field_def payload_def forward_msg_def
        loads_table_def dict_get_def known_cmds_def)
  from not_connected_drops [OF h, of NothingWaiting] h show ?thesis
    by simp
qed

subsection \<open>A failed write\<close>

lemma scan_ports_find: "fst (scan_ports probe cands) = find (\<lambda>p. probe p = ProbeOk) cands"
  by (induction cands) (auto split: prod.split)

lemma init_arduino_connects:
  assumes "find (\<lambda>p. probe p = ProbeOk) cands = Some port" and "open_ok port"
  shows "arduino_ser (init_arduino cands probe open_ok st) = Some port"
proof -
  obtain found es where s: "scan_ports probe cands = (found, es)"
    by (cases "scan_ports probe cands")
  with scan_ports_find [of probe cands] assms(1) have "found = Some port"
    by simp
  with s assms(2) show ?thesis
    by (simp add: init_arduino_def find_arduino_port_def)
qed

lemma send_cmd_to_arduino_write_ok:
  assumes "arduino_ser st = Some port" and "io \<noteq> WriteFails"
  shows "take 2 (emitted st (send_cmd_to_arduino cmd io st))
           = [SerialWrite port (cmd @ ''\<newline>''), Print (Sent cmd)]"
  using assms by (cases io) (simp_all add: send_cmd_to_arduino_def Let_def)

text \<open>
  Claim C3, as stated, fails: after a write that raises, the serial handle is still
  set.
\<close>

theorem write_failure_unconnects_counterexample:
  "arduino_ser (send_cmd_to_arduino ''forward'' WriteFails bak_connected) \<noteq> None"
  by (simp add: send_cmd_to_arduino_def bak_connected_def)

text \<open>
  Claim C3, amended. When the write raises on an active session, the error is printed
  and the session is kept as it is; the next send whose write does not raise goes out
  on it. After a connect that succeeds (the first candidate whose probe passes opens),
  the handle is set to that port, and a send whose write does not raise writes the line
  there and prints that it was sent.
\<close>

theorem write_failure_keeps_session:
  assumes "arduino_ser st = Some port"
  shows "send_cmd_to_arduino cmd WriteFails st
           = emit [SerialWrite port (cmd @ ''\<newline>''), Print (SendError cmd)] st
    \<and> arduino_ser (send_cmd_to_arduino cmd WriteFails st) = Some port
    \<and> (io \<noteq> WriteFails \<longrightarrow>
         take 2 (emitted (send_cmd_to_arduino cmd WriteFails st)
                   (send_cmd_to_arduino cmd' io (send_cmd_to_arduino cmd WriteFails st)))
           = [SerialWrite port (cmd' @ ''\<newline>''), Print (Sent cmd')])
    \<and> (find (\<lambda>p. probe p = ProbeOk) cands = Some port' \<and> open_ok port' \<longrightarrow>
         arduino_ser (init_arduino cands probe open_ok (send_cmd_to_arduino cmd WriteFails st))
           = Some port'
         \<and> (io \<noteq> WriteFails \<longrightarrow>
              take 2 (emitted (init_arduino cands probe open_ok (send_cmd_to_arduino cmd WriteFails st))
                   (send_cmd_to_arduino cmd' io
                      (init_arduino cands probe open_ok (send_cmd_to_arduino cmd WriteFails st))))
                = [SerialWrite port' (cmd' @ ''\<newline>''), Print (Sent cmd')]))"
proof -
  let ?st1 = "send_cmd_to_arduino cmd WriteFails st"
  let ?st2 = "init_arduino cands probe open_ok ?st1"
  have 1: "?st1 = emit [SerialWrite port (cmd @ ''\<newline>''), Print (SendError cmd)] st"
    using assms by (simp add: send_cmd_to_arduino_def)
  then have 2: "arduino_ser ?st1 = Some port"
    using assms by simp
  have 3: "take 2 (emitted ?st1 (send_cmd_to_arduino cmd' io ?st1))
           = [SerialWrite port (cmd' @ ''\<newline>''), Print (Sent cmd')]" if "io \<noteq> WriteFails"
    by (rule send_cmd_to_arduino_write_ok [OF 2 that])
  have 4: "arduino_ser ?st2 = Some port'
     \<and> (io \<noteq> WriteFails \<longrightarrow> take 2 (emitted ?st2 (send_cmd_to_arduino cmd' io ?st2))
           = [SerialWrite port' (cmd' @ ''\<newline>''), Print (Sent cmd')])"
    if "find (\<lambda>p. probe p = ProbeOk) cands = Some port'" "open_ok port'"
    using init_arduino_connects [of probe cands port' open_ok ?st1] that
      send_cmd_to_arduino_write_ok [of ?st2 port' io cmd']
    by blast
  show ?thesis
    using 1 2 3 4 by blast
qed

theorem write_failure_keeps_session_witness:
  "arduino_ser bak_connected = Some ''/dev/ttyUSB0''
   \<and> arduino_ser (send_cmd_to_arduino ''forward'' WriteFails bak_connected) = Some ''/dev/ttyUSB0''
   \<and> NothingWaiting \<noteq> WriteFails
   \<and> take 2 (emitted (send_cmd_to_arduino ''forward'' WriteFails bak_connected)
                   (send_cmd_to_arduino ''left'' NothingWaiting
                      (send_cmd_to_arduino ''forward'' WriteFails bak_connected)))
           = [SerialWrite ''/dev/ttyUSB0'' ''left\<newline>'', Print (Sent ''left'')]
   \<and> find (\<lambda>p. (\<lambda>p. ProbeOk) p = ProbeOk) [''/dev/ttyACM0''] = Some ''/dev/ttyACM0''
   \<and> arduino_ser (init_arduino [''/dev/ttyACM0''] (\<lambda>p. ProbeOk) (\<lambda>p. True)
        (send_cmd_to_arduino ''forward'' WriteFails bak_connected)) = Some ''/dev/ttyACM0''
   \<and> take 2 (emitted (init_arduino [''/dev/ttyACM0''] (\<lambda>p. ProbeOk) (\<lambda>p. True)
                        (send_cmd_to_arduino ''forward'' WriteFails bak_connected))
                (send_cmd_to_arduino ''left'' NothingWaiting
                   (init_arduino [''/dev/ttyACM0''] (\<lambda>p. ProbeOk) (\<lambda>p. True)
                      (send_cmd_to_arduino ''forward'' WriteFails bak_connected))))
          = [SerialWrite ''/dev/ttyACM0'' ''left\<newline>'', Print (Sent ''left'')]"
proof -
  have h: "arduino_ser bak_connected = Some ''/dev/ttyUSB0''"
    by (simp add: bak_connected_def)
  have f: "find (\<lambda>p. (\<lambda>p. ProbeOk) p = ProbeOk) [''/dev/ttyACM0''] = Some ''/dev/ttyACM0''"
    by simp
  have d: "NothingWaiting \<noteq> WriteFails"
    by simp
  let ?st1 = "send_cmd_to_arduino ''forward'' WriteFails bak_connected"
  let ?st2 = "init_arduino [''/dev/ttyACM0''] (\<lambda>p. ProbeOk) (\<lambda>p. True) ?st1"
  from write_failure_keeps_session [OF h, of "''forward''" NothingWaiting "''left''"
      "\<lambda>p. ProbeOk" "[''/dev/ttyACM0'']" "''/dev/ttyACM0''" "\<lambda>p. True"] f d
  have "arduino_ser ?st1 = Some ''/dev/ttyUSB0''"
    and "take 2 (emitted ?st1 (send_cmd_to_arduino ''left'' NothingWaiting ?st1))
           = [SerialWrite ''/dev/ttyUSB0'' (''left'' @ ''\<newline>''), Print (Sent ''left'')]"
    and "arduino_ser ?st2 = Some ''/dev/ttyACM0''"
    and "take 2 (emitted ?st2 (send_cmd_to_arduino ''left'' NothingWaiting ?st2))
           = [SerialWrite ''/dev/ttyACM0'' (''left'' @ ''\<newline>''), Print (Sent ''left'')]"
    by blast+
  then show ?thesis
    using h f d by simp
qed

section \<open>Key normalisation\<close>



section \<open>Jogging a joint\<close>

lemma handle_key_jog:
  assumes "(k, idx, sign) \<in> set KEYMAP" and "ros_node st = Some self"
    and "length (q self) = length JOINT_NAMES"
  shows "handle_key (JStr k) st =
           Returned (emit [Print (JogKey k idx (q self ! idx + real_of_int sign * STEP_RAD)),
                           Publish JOINT_NAMES ((q self)[idx := q self ! idx + real_of_int sign * STEP_RAD])]
                      (st\<lparr>ros_node := Some (self\<lparr>q := (q self)[idx := q self ! idx + real_of_int sign * STEP_RAD]\<rparr>)\<rparr>))"
proof -
  from KEYMAP_keys(1) [OF assms(1)] obtain c where c: "k = [c]" "jog_letter c"
    by blast
  have "strip (lower k) = k"
    by (rule strip_lower_key [OF assms(1)])
  moreover have "k \<notin> STOP_KEYS" "truthy (JStr k)"
    using c by (simp_all add: jog_letter_def)
  moreover have "map_of KEYMAP k = Some (idx, sign)"
    by (rule KEYMAP_map_of [OF assms(1)])
  moreover have "idx < length (q self)"
    using KEYMAP_keys(2) [OF assms(1)] assms(3) by simp
  ultimately show ?thesis
    using assms(2) by (simp add: handle_key_def publish_target_def emit_def)
qed




lemma KEYMAP_q: "(''q'', 0, 1) \<in> set KEYMAP" and KEYMAP_a: "(''a'', 0, -1) \<in> set KEYMAP"
  by (simp_all add: KEYMAP_def)

text \<open>
  Claim C7. From the all-zero vector the keys \<open>q\<close>, \<open>q\<close>, \<open>a\<close> leave joint 0 at
  exactly one step and every other joint at 0; the three published targets are one
  step, two steps and one step.
\<close>

theorem jog_q_q_a:
  "handle_keys [JStr ''q'', JStr ''q'', JStr ''a''] \<lparr>out = es, ros_node = Some JointJogNode_init\<rparr> =
     Returned \<lparr>out = es @
        [Print (JogKey ''q'' 0 STEP_RAD), Publish JOINT_NAMES [STEP_RAD, 0, 0, 0, 0, 0, 0],
         Print (JogKey ''q'' 0 (2 * STEP_RAD)), Publish JOINT_NAMES [2 * STEP_RAD, 0, 0, 0, 0, 0, 0],
         Print (JogKey ''a'' 0 STEP_RAD), Publish JOINT_NAMES [STEP_RAD, 0, 0, 0, 0, 0, 0]],
       ros_node = Some \<lparr>q = [STEP_RAD, 0, 0, 0, 0, 0, 0]\<rparr>\<rparr>"
proof -
  let ?s0 = "\<lparr>out = es, ros_node = Some JointJogNode_init\<rparr>"
  let ?s1 = "\<lparr>out = es @ [Print (JogKey ''q'' 0 STEP_RAD), Publish JOINT_NAMES [STEP_RAD, 0, 0, 0, 0, 0, 0]],
       ros_node = Some \<lparr>q = [STEP_RAD, 0, 0, 0, 0, 0, 0]\<rparr>\<rparr>"
  let ?s2 = "\<lparr>out = es @ [Print (JogKey ''q'' 0 STEP_RAD), Publish JOINT_NAMES [STEP_RAD, 0, 0, 0, 0, 0, 0],
         Print (JogKey ''q'' 0 (2 * STEP_RAD)), Publish JOINT_NAMES [2 * STEP_RAD, 0, 0, 0, 0, 0, 0]],
       ros_node = Some \<lparr>q = [2 * STEP_RAD, 0, 0, 0, 0, 0, 0]\<rparr>\<rparr>"
  have 1: "handle_key (JStr ''q'') ?s0 = Returned ?s1"
    using handle_key_jog [OF KEYMAP_q, of ?s0 JointJogNode_init]
    by (simp add: JointJogNode_init_def JOINT_NAMES_def emit_def)
  have 2: "handle_key (JStr ''q'') ?s1 = Returned ?s2"
    using handle_key_jog [OF KEYMAP_q, of ?s1 "\<lparr>q = [STEP_RAD, 0, 0, 0, 0, 0, 0]\<rparr>"]
    by (simp add: JOINT_NAMES_def emit_def)
  have 3: "handle_key (JStr ''a'') ?s2 = Returned \<lparr>out = es @
        [Print (JogKey ''q'' 0 STEP_RAD), Publish JOINT_NAMES [STEP_RAD, 0, 0, 0, 0, 0, 0],
         Print (JogKey ''q'' 0 (2 * STEP_RAD)), Publish JOINT_NAMES [2 * STEP_RAD, 0, 0, 0, 0, 0, 0],
         Print (JogKey ''a'' 0 STEP_RAD), Publish JOINT_NAMES [STEP_RAD, 0, 0, 0, 0, 0, 0]],
       ros_node = Some \<lparr>q = [STEP_RAD, 0, 0, 0, 0, 0, 0]\<rparr>\<rparr>"
    using handle_key_jog [OF KEYMAP_a, of ?s2 "\<lparr>q = [2 * STEP_RAD, 0, 0, 0, 0, 0, 0]\<rparr>"]
    by (simp add: JOINT_NAMES_def emit_def)
  show ?thesis
    by (simp add: 1 2 3)
qed

section \<open>The stop keys\<close>

lemma strip_lower_space: "strip (lower '' '') = []"
  by (simp add: strip_def lower_def lower_char_def isspace_def)

lemma strip_lower_x: "strip (lower ''x'') = ''x''"
  by (simp add: strip_def lower_def lower_char_def isspace_def)

text \<open>
  Claim C4. In every state with a node, the key \<open>x\<close> prints the hold line and
  publishes the current vector, which stays as it is. The space key does not:
  \<open>strip\<close> turns it into the empty string before the test against \<open>STOP_KEYS\<close>, so
  the call returns with the state untouched and nothing published, although
  \<open>STOP_KEYS\<close> lists the space. A jog envelope carrying the space key therefore
  leaves only the line the handler prints on receipt.
\<close>

theorem space_key_publishes_nothing:
  "handle_key (JStr '' '') \<lparr>out = es, ros_node = Some \<lparr>q = qs\<rparr>\<rparr>
     = Returned \<lparr>out = es, ros_node = Some \<lparr>q = qs\<rparr>\<rparr>
   \<and> handle_teleop_message_gzb loads_table space_msg gzb_start
       = Returned (emit [Print (Received (JStr '' '') (JInt 3) (Some ''operator''))] gzb_start)
   \<and> published (emitted gzb_start
        (state_of (handle_teleop_message_gzb loads_table space_msg gzb_start))) = []
   \<and> handle_key (JStr ''x'') \<lparr>out = es, ros_node = Some \<lparr>q = qs\<rparr>\<rparr>
       = Returned \<lparr>out = es @ [Print (StopHold ''x''), Publish JOINT_NAMES qs],
                   ros_node = Some \<lparr>q = qs\<rparr>\<rparr>"
proof -
  have k: "map_of KEYMAP [] = None"
    by (simp add: KEYMAP_def)
  have 1: "handle_key (JStr '' '') \<lparr>out = es, ros_node = Some \<lparr>q = qs\<rparr>\<rparr>
     = Returned \<lparr>out = es, ros_node = Some \<lparr>q = qs\<rparr>\<rparr>"
    by (simp add: handle_key_def strip_lower_space STOP_KEYS_def k)
  have 2: "handle_teleop_message_gzb loads_table space_msg gzb_start
       = Returned (emit [Print (Received (JStr '' '') (JInt 3) (Some ''operator''))] gzb_start)"
    by (simp add: handle_teleop_message_gzb_def handle_teleop_message_gzb_try_def loads_table_def
        space_msg_def dict_get_def gzb_start_def handle_key_def strip_lower_space STOP_KEYS_def k
        emit_def)
  have 3: "published (emitted gzb_start
        (state_of (handle_teleop_message_gzb loads_table space_msg gzb_start))) = []"
    by (simp add: 2)
  have 4: "handle_key (JStr ''x'') \<lparr>out = es, ros_node = Some \<lparr>q = qs\<rparr>\<rparr>
       = Returned \<lparr>out = es @ [Print (StopHold ''x''), Publish JOINT_NAMES qs],
                   ros_node = Some \<lparr>q = qs\<rparr>\<rparr>"
    by (simp add: handle_key_def strip_lower_x STOP_KEYS_def publish_target_def emit_def)
  show ?thesis
    using 1 2 3 4 by simp
qed

section \<open>The length of the joint vector\<close>








end
